theory Spec2Isabelle
  imports Complex_Main
begin

section \<open>Point-cloud comparison and height filtering (src/ply.py)\<close>

subsection \<open>Floating-point values\<close>

text \<open>
  A float64 coordinate is a finite value, one of the two infinities, or not-a-number.
  The program only compares coordinates and takes minima and maxima of them; these
  operations are exact on floats, so a finite float is represented by the real number it
  denotes. The sign of zero is not represented: no comparison distinguishes the two zeros.
\<close>

datatype fl = Fin real | PInf | NInf | NaN

text \<open>The comparison \<^verbatim>\<open>a > b\<close> of numpy: false whenever an operand is not-a-number.\<close>

fun fgt :: "fl \<Rightarrow> fl \<Rightarrow> bool" where
  "fgt NaN _ = False"
| "fgt _ NaN = False"
| "fgt PInf PInf = False"
| "fgt PInf _ = True"
| "fgt NInf _ = False"
| "fgt (Fin a) NInf = True"
| "fgt (Fin a) PInf = False"
| "fgt (Fin a) (Fin b) = (b < a)"

text \<open>\<^verbatim>\<open>np.isnan\<close> and \<^verbatim>\<open>np.isinf\<close> on one value.\<close>

fun isnan :: "fl \<Rightarrow> bool" where
  "isnan NaN = True"
| "isnan _ = False"

fun isinf :: "fl \<Rightarrow> bool" where
  "isinf PInf = True"
| "isinf NInf = True"
| "isinf _ = False"

text \<open>
  \<^verbatim>\<open>np.minimum\<close> and \<^verbatim>\<open>np.maximum\<close>, the binary operations behind the reductions
  \<^verbatim>\<open>np.min\<close> and \<^verbatim>\<open>np.max\<close>: a not-a-number operand is returned as it is.
\<close>

definition fminimum :: "fl \<Rightarrow> fl \<Rightarrow> fl" where
  "fminimum a b = (if isnan a then a else if isnan b then b else if fgt a b then b else a)"

definition fmaximum :: "fl \<Rightarrow> fl \<Rightarrow> fl" where
  "fmaximum a b = (if isnan a then a else if isnan b then b else if fgt b a then b else a)"

subsection \<open>Points, clouds and errors\<close>

text \<open>One row of an N x 3 array: columns 0, 1 and 2.\<close>

datatype vec3 = Vec3 (vx: fl) (vy: fl) (vz: fl)

definition coords :: "vec3 \<Rightarrow> fl list" where
  "coords p = [vx p, vy p, vz p]"

text \<open>
  The exceptions of the program: \<open>ValueError\<close> (a reduction over an empty axis),
  \<open>IndexError\<close> (a boolean index of the wrong length) and \<open>ExtError\<close>, any exception
  raised inside a library call (reading a file, opening the viewer), with its message.
\<close>

datatype error = ValueError | IndexError | ExtError string

text \<open>
  The point cloud of the geometry library (Open3D): a vector of points and a vector of
  colours. \<open>PointCloud_new\<close> is the constructor call of line 85, a cloud with neither.
  \<open>has_colors\<close> is the library's own test, \<^verbatim>\<open>points_.size() > 0 && colors_.size() ==
  points_.size()\<close>: the cloud has points, and as many colours as points.
\<close>

record cloud =
  points :: "vec3 list"
  colors :: "vec3 list"

definition PointCloud_new :: cloud where
  "PointCloud_new = \<lparr>points = [], colors = []\<rparr>"

definition has_colors :: "cloud \<Rightarrow> bool" where
  "has_colors c = (points c \<noteq> [] \<and> length (colors c) = length (points c))"

subsection \<open>The height filter (lines 79 to 92)\<close>

text \<open>
  \<^verbatim>\<open>xs[mask]\<close> with a boolean array: the rows at which the mask is true, in order.
  numpy raises IndexError when the mask and the array differ in length.
\<close>

definition bool_index :: "'a list \<Rightarrow> bool list \<Rightarrow> error + 'a list" where
  "bool_index xs msk =
     (if length msk = length xs then Inr (map fst (filter snd (zip xs msk)))
      else Inl IndexError)"

text \<open>The mask \<^verbatim>\<open>points[:, 2] > z_threshold\<close>, computed on lines 82 and 91.\<close>

definition height_mask :: "vec3 list \<Rightarrow> fl \<Rightarrow> bool list" where
  "height_mask pts z_threshold = map (\<lambda>p. fgt (vz p) z_threshold) pts"

definition filter_by_height :: "cloud \<Rightarrow> fl \<Rightarrow> error + cloud" where
  "filter_by_height c z_threshold =
     (let pts = points c in
      case bool_index pts (height_mask pts z_threshold) of
        Inl e \<Rightarrow> Inl e
      | Inr filtered_points \<Rightarrow>
          let filtered_cloud = PointCloud_new\<lparr>points := filtered_points\<rparr> in
          if has_colors c then
            (case bool_index (colors c) (height_mask pts z_threshold) of
               Inl e \<Rightarrow> Inl e
             | Inr filtered_colors \<Rightarrow> Inr (filtered_cloud\<lparr>colors := filtered_colors\<rparr>))
          else Inr filtered_cloud)"

subsection \<open>What a run does: log records, console output, library calls\<close>

text \<open>
  A formatted log message is the sequence of its literal pieces and interpolated values,
  in order: \<^verbatim>\<open>f"Point cloud 1 size: {len(points1)}"\<close> is
  \<open>[Txt ''Point cloud 1 size: '', NatV (length points1)]\<close>. How a value is rendered
  as text is not modelled.
\<close>

datatype level = INFO | ERROR

datatype frag =
  Txt string | PathV string | NatV nat | FlV fl | VecV vec3 | BoolV bool | ErrV error

text \<open>
  What \<^verbatim>\<open>print\<close> writes in \<^verbatim>\<open>print_ply_info\<close>: the first five rows, the column names,
  the whole table, the coordinates and the summary statistics, each kept as the table it
  is computed from.
\<close>

datatype printed =
  Head "vec3 list" | Columns | Table "vec3 list" | Vertices "vec3 list" | Describe "vec3 list"

text \<open>
  The events of a run, in the order they happen: a log record, a line on the console, and
  the calls into the libraries (the existence test of a path, the two file readers, the
  viewer).
\<close>

datatype event =
  Log level "frag list"
| Print printed
| PathExists string
| PyntFromFile string
| O3dRead string
| O3dDraw cloud

text \<open>
  The libraries the program calls, as parameters: \<^verbatim>\<open>os.path.exists\<close>,
  \<^verbatim>\<open>PyntCloud.from_file\<close> followed by the selection of the columns x, y, z (a file without
  them is a failed read), \<^verbatim>\<open>o3d.io.read_point_cloud\<close> and
  \<^verbatim>\<open>o3d.visualization.draw_geometries\<close>. Each reader and the viewer either returns or
  raises. A path gives the same answer each time it is asked within one run.
\<close>

record env =
  path_exists :: "string \<Rightarrow> bool"
  from_file :: "string \<Rightarrow> error + vec3 list"
  read_point_cloud :: "string \<Rightarrow> error + cloud"
  draw_geometries :: "cloud \<Rightarrow> error + unit"

subsection \<open>\<^verbatim>\<open>print_ply_info\<close> (lines 10 to 40)\<close>

text \<open>The whole body is inside \<^verbatim>\<open>try\<close>: an exception becomes an error record.\<close>

definition print_ply_info :: "env \<Rightarrow> string \<Rightarrow> event list" where
  "print_ply_info E file =
     [Log INFO [Txt ''Reading file: '', PathV file], PyntFromFile file] @
     (case from_file E file of
        Inl e \<Rightarrow> [Log ERROR [Txt ''Error reading '', PathV file, Txt '': '', ErrV e]]
      | Inr pts \<Rightarrow>
          [Log INFO [Txt ''PLY file header information:''], Print (Head (take 5 pts)),
           Log INFO [Txt ''Columns in the point cloud:''], Print Columns,
           Log INFO [Txt ''All point cloud data:''], Print (Table pts),
           Log INFO [Txt ''Vertex coordinates (x, y, z):''], Print (Vertices pts),
           Log INFO [Txt ''Point cloud statistics:''], Print (Describe pts)])"

subsection \<open>The comparator (lines 42 to 68)\<close>

text \<open>
  \<^verbatim>\<open>np.min(points, axis=0)\<close> and \<^verbatim>\<open>np.max(points, axis=0)\<close>: the reduction of each column.
  numpy raises ValueError when the array has no rows.
\<close>

definition amin0 :: "vec3 list \<Rightarrow> error + vec3" where
  "amin0 ps =
     (case ps of
        [] \<Rightarrow> Inl ValueError
      | p # qs \<Rightarrow> Inr (Vec3 (foldl fminimum (vx p) (map vx qs))
                           (foldl fminimum (vy p) (map vy qs))
                           (foldl fminimum (vz p) (map vz qs))))"

definition amax0 :: "vec3 list \<Rightarrow> error + vec3" where
  "amax0 ps =
     (case ps of
        [] \<Rightarrow> Inl ValueError
      | p # qs \<Rightarrow> Inr (Vec3 (foldl fmaximum (vx p) (map vx qs))
                           (foldl fmaximum (vy p) (map vy qs))
                           (foldl fmaximum (vz p) (map vz qs))))"

text \<open>\<^verbatim>\<open>f(points).any()\<close>: some entry of the array satisfies the test.\<close>

definition np_any :: "(fl \<Rightarrow> bool) \<Rightarrow> vec3 list \<Rightarrow> bool" where
  "np_any f ps = list_ex f (concat (map coords ps))"

text \<open>
  Lines 54 to 68, on the two coordinate arrays: the events, and \<open>Inl\<close> the exception
  that ends the function early or \<open>Inr ()\<close> when it returns.
\<close>

definition compare :: "vec3 list \<Rightarrow> vec3 list \<Rightarrow> event list \<times> (error + unit)" where
  "compare points1 points2 =
     (let sizes = [Log INFO [Txt ''Point cloud 1 size: '', NatV (length points1)],
                   Log INFO [Txt ''Point cloud 2 size: '', NatV (length points2)]] in
      case amin0 points1 of Inl e \<Rightarrow> (sizes, Inl e) | Inr min1 \<Rightarrow>
     (case amax0 points1 of Inl e \<Rightarrow> (sizes, Inl e) | Inr max1 \<Rightarrow>
     (case amin0 points2 of Inl e \<Rightarrow> (sizes, Inl e) | Inr min2 \<Rightarrow>
     (case amax0 points2 of Inl e \<Rightarrow> (sizes, Inl e) | Inr max2 \<Rightarrow>
       (let invalid1 = (np_any isnan points1 \<or> np_any isinf points1);
            invalid2 = (np_any isnan points2 \<or> np_any isinf points2) in
        (sizes @
         [Log INFO [Txt ''Point cloud 1 range - min: '', VecV min1, Txt '', max: '', VecV max1],
          Log INFO [Txt ''Point cloud 2 range - min: '', VecV min2, Txt '', max: '', VecV max2],
          Log INFO [Txt ''Point cloud 1 has invalid points: '', BoolV invalid1],
          Log INFO [Txt ''Point cloud 2 has invalid points: '', BoolV invalid2]],
         Inr ()))))))"

text \<open>Lines 46 to 52 read the two files, outside any \<^verbatim>\<open>try\<close>; then the comparison.\<close>

definition compare_point_clouds :: "env \<Rightarrow> string \<Rightarrow> string \<Rightarrow> event list \<times> (error + unit)" where
  "compare_point_clouds E file1 file2 =
     (case from_file E file1 of
        Inl e \<Rightarrow> ([PyntFromFile file1], Inl e)
      | Inr points1 \<Rightarrow>
          (case from_file E file2 of
             Inl e \<Rightarrow> ([PyntFromFile file1, PyntFromFile file2], Inl e)
           | Inr points2 \<Rightarrow>
               (let r = compare points1 points2 in
                ([PyntFromFile file1, PyntFromFile file2] @ fst r, snd r))))"

subsection \<open>\<^verbatim>\<open>visualize_point_cloud\<close> (lines 70 to 100)\<close>

text \<open>The whole body is inside \<^verbatim>\<open>try\<close>: an exception becomes an error record.\<close>

definition visualize_point_cloud :: "env \<Rightarrow> string \<Rightarrow> fl \<Rightarrow> event list" where
  "visualize_point_cloud E file z_threshold =
     (let failed = (\<lambda>e. [Log ERROR [Txt ''Error visualizing '', PathV file, Txt '': '', ErrV e]]) in
      O3dRead file #
      (case read_point_cloud E file of
         Inl e \<Rightarrow> failed e
       | Inr c \<Rightarrow>
           (case filter_by_height c z_threshold of
              Inl e \<Rightarrow> failed e
            | Inr filtered_cloud \<Rightarrow>
                [Log INFO [Txt ''Visualizing point cloud: '', PathV file,
                           Txt '' (only points with z > '', FlV z_threshold, Txt '')''],
                 Log INFO [Txt ''Original points: '', NatV (length (points c)),
                           Txt '', Filtered points: '', NatV (length (points filtered_cloud))],
                 O3dDraw filtered_cloud] @
                (case draw_geometries E filtered_cloud of
                   Inl e \<Rightarrow> failed e
                 | Inr u \<Rightarrow> []))))"

subsection \<open>\<^verbatim>\<open>main\<close> (lines 102 to 123)\<close>

text \<open>
  \<^verbatim>\<open>not exists(file1) or not exists(file2)\<close> asks about the second path only when the first
  exists. The two calls of \<^verbatim>\<open>visualize_point_cloud\<close> leave the threshold at its default 0.
\<close>

definition main :: "env \<Rightarrow> string \<Rightarrow> string \<Rightarrow> event list \<times> (error + unit)" where
  "main E file1 file2 =
     (let checks = PathExists file1 # (if path_exists E file1 then [PathExists file2] else []) in
      if \<not> path_exists E file1 \<or> \<not> path_exists E file2 then
        (checks @ [Log ERROR [Txt ''One or both files do not exist.'']], Inr ())
      else
        (let before = checks @ [Log INFO [Txt ''Printing PLY file information...'']] @
                      print_ply_info E file1 @ print_ply_info E file2 @
                      [Log INFO [Txt ''Comparing point clouds...'']];
             r = compare_point_clouds E file1 file2 in
         case snd r of
           Inl e \<Rightarrow> (before @ fst r, Inl e)
         | Inr u \<Rightarrow>
             (before @ fst r @
              [Log INFO [Txt ''Visualizing point clouds (only z > 5)...'']] @
              visualize_point_cloud E file1 (Fin 0) @ visualize_point_cloud E file2 (Fin 0),
              Inr ())))"

subsection \<open>Reading a run\<close>

text \<open>
  The values a run reports under a label: the rest of every INFO record whose message
  starts with that text, in order.
\<close>

fun payload :: "string \<Rightarrow> event \<Rightarrow> frag list option" where
  "payload lbl (Log INFO (Txt l # vs)) = (if l = lbl then Some vs else None)"
| "payload lbl _ = None"

definition reported :: "string \<Rightarrow> event list \<Rightarrow> frag list list" where
  "reported lbl tr = List.map_filter (payload lbl) tr"

text \<open>The calls of a file reader in a run, and the records of level ERROR.\<close>

fun is_load :: "event \<Rightarrow> bool" where
  "is_load (PyntFromFile f) = True"
| "is_load (O3dRead f) = True"
| "is_load _ = False"

definition loader_calls :: "event list \<Rightarrow> event list" where
  "loader_calls tr = filter is_load tr"

fun error_frags :: "event \<Rightarrow> frag list" where
  "error_frags (Log ERROR fs) = fs"
| "error_frags _ = []"

text \<open>The paths named in the error records of a run, and the paths a run asked about.\<close>

fun path_of :: "frag \<Rightarrow> string list" where
  "path_of (PathV p) = [p]"
| "path_of _ = []"

definition paths_in_errors :: "event list \<Rightarrow> string list" where
  "paths_in_errors tr = concat (map path_of (concat (map error_frags tr)))"

fun checked :: "event \<Rightarrow> string list" where
  "checked (PathExists p) = [p]"
| "checked _ = []"

definition paths_checked :: "event list \<Rightarrow> string list" where
  "paths_checked tr = concat (map checked tr)"

text \<open>The events of the visualization step: reading a cloud for the viewer, and the viewer.\<close>

fun is_visualize :: "event \<Rightarrow> bool" where
  "is_visualize (O3dRead f) = True"
| "is_visualize (O3dDraw c) = True"
| "is_visualize _ = False"

text \<open>
  The comparison \<^verbatim>\<open>a <= b\<close> on floats (false whenever an operand is not-a-number), and
  the componentwise order of two points: the order in which an extent bounds a point.
\<close>

fun fle :: "fl \<Rightarrow> fl \<Rightarrow> bool" where
  "fle NaN _ = False"
| "fle _ NaN = False"
| "fle NInf _ = True"
| "fle _ PInf = True"
| "fle PInf _ = False"
| "fle (Fin a) NInf = False"
| "fle (Fin a) (Fin b) = (a \<le> b)"

definition vec_le :: "vec3 \<Rightarrow> vec3 \<Rightarrow> bool" where
  "vec_le p q = (fle (vx p) (vx q) \<and> fle (vy p) (vy q) \<and> fle (vz p) (vz q))"

text \<open>A cloud has an invalid value: some coordinate of some point is NaN or infinite.\<close>

definition invalid_coord :: "fl \<Rightarrow> bool" where
  "invalid_coord v = (v = NaN \<or> v = PInf \<or> v = NInf)"

definition has_invalid :: "vec3 list \<Rightarrow> bool" where
  "has_invalid ps = (\<exists>p \<in> set ps. \<exists>v \<in> set (coords p). invalid_coord v)"

definition has_nan :: "vec3 list \<Rightarrow> bool" where
  "has_nan ps = (\<exists>p \<in> set ps. \<exists>v \<in> set (coords p). v = NaN)"

text \<open>
  A point lies above a real threshold: its z-coordinate, read as a number, is strictly
  greater. Plus infinity is above every real threshold; minus infinity and not-a-number
  are above none.
\<close>

definition above :: "real \<Rightarrow> vec3 \<Rightarrow> bool" where
  "above r p = (case vz p of Fin z \<Rightarrow> r < z | PInf \<Rightarrow> True | NInf \<Rightarrow> False | NaN \<Rightarrow> False)"

subsection \<open>Two test environments\<close>

text \<open>No file exists.\<close>

definition env_no_files :: env where
  "env_no_files =
     \<lparr>path_exists = (\<lambda>p. False),
      from_file = (\<lambda>p. Inl (ExtError ''No such file'')),
      read_point_cloud = (\<lambda>p. Inr PointCloud_new),
      draw_geometries = (\<lambda>c. Inr ())\<rparr>"

text \<open>
  Every file exists; \<open>bad.ply\<close> is not a point-cloud file and its read raises, every
  other file holds one point at height 1.
\<close>

definition env_bad_file :: env where
  "env_bad_file =
     \<lparr>path_exists = (\<lambda>p. True),
      from_file = (\<lambda>p. if p = ''bad.ply'' then Inl (ExtError ''not a PLY file'')
                         else Inr [Vec3 (Fin 0) (Fin 0) (Fin 1)]),
      read_point_cloud = (\<lambda>p. Inr \<lparr>points = [Vec3 (Fin 0) (Fin 0) (Fin 1)], colors = []\<rparr>),
      draw_geometries = (\<lambda>c. Inr ())\<rparr>"

subsection \<open>Facts about boolean indexing\<close>

lemma mask_select_self:
  "map fst (filter snd (zip xs (map P xs))) = filter P xs"
  by (induction xs) auto

lemma mask_select_paired:
  "length cs = length ps \<Longrightarrow>
   map fst (filter snd (zip cs (map P ps))) = map snd (filter (\<lambda>pc. P (fst pc)) (zip ps cs))"
  by (induction cs ps rule: list_induct2) auto

lemma bool_index_points:
  "bool_index pts (height_mask pts t) = Inr (filter (\<lambda>p. fgt (vz p) t) pts)"
  by (simp add: bool_index_def height_mask_def mask_select_self)

lemma bool_index_colors:
  "length cs = length pts \<Longrightarrow>
   bool_index cs (height_mask pts t) =
     Inr (map snd (filter (\<lambda>pc. fgt (vz (fst pc)) t) (zip pts cs)))"
  by (simp add: bool_index_def height_mask_def mask_select_paired)

lemma filter_by_height_eq:
  "filter_by_height c t =
     Inr \<lparr>points = filter (\<lambda>p. fgt (vz p) t) (points c),
          colors = (if has_colors c
                    then map snd (filter (\<lambda>pc. fgt (vz (fst pc)) t) (zip (points c) (colors c)))
                    else [])\<rparr>"
  by (simp add: filter_by_height_def Let_def bool_index_points bool_index_colors
      has_colors_def PointCloud_new_def)

lemma fgt_Fin_above: "fgt (vz p) (Fin r) = above r p"
  by (cases "vz p") (simp_all add: above_def)

lemma filter_keeps: "filter P (filter P xs) = filter P xs"
  by (induction xs) auto

lemma zip_kept:
  "length cs = length ps \<Longrightarrow>
   zip (filter P ps) (map snd (filter (\<lambda>pc. P (fst pc)) (zip ps cs)))
     = filter (\<lambda>pc. P (fst pc)) (zip ps cs)"
  by (induction cs ps rule: list_induct2) auto

lemma length_kept:
  "length cs = length ps \<Longrightarrow>
   length (filter (\<lambda>pc. P (fst pc)) (zip ps cs)) = length (filter P ps)"
  by (induction cs ps rule: list_induct2) auto

lemma kept_none:
  "length cs = length ps \<Longrightarrow> \<forall>p \<in> set ps. \<not> P p \<Longrightarrow>
   filter (\<lambda>pc. P (fst pc)) (zip ps cs) = []"
  by (induction cs ps rule: list_induct2) auto

lemma kept_all:
  "length cs = length ps \<Longrightarrow> \<forall>p \<in> set ps. P p \<Longrightarrow>
   map snd (filter (\<lambda>pc. P (fst pc)) (zip ps cs)) = cs"
  by (induction cs ps rule: list_induct2) auto

subsection \<open>Facts about the comparator\<close>

lemma amin0_Cons: "ps \<noteq> [] \<Longrightarrow> \<exists>m. amin0 ps = Inr m"
  by (cases ps) (simp_all add: amin0_def)

lemma amax0_Cons: "ps \<noteq> [] \<Longrightarrow> \<exists>m. amax0 ps = Inr m"
  by (cases ps) (simp_all add: amax0_def)

text \<open>With an empty array the function stops at line 59 or 60, after the two sizes.\<close>

lemma compare_empty:
  "A = [] \<or> B = [] \<Longrightarrow>
   compare A B = ([Log INFO [Txt ''Point cloud 1 size: '', NatV (length A)],
                   Log INFO [Txt ''Point cloud 2 size: '', NatV (length B)]], Inl ValueError)"
  by (cases A; cases B) (simp_all add: compare_def amin0_def amax0_def)

lemma compare_nonempty:
  assumes "amin0 A = Inr min1" "amax0 A = Inr max1" "amin0 B = Inr min2" "amax0 B = Inr max2"
  shows "compare A B =
    ([Log INFO [Txt ''Point cloud 1 size: '', NatV (length A)],
      Log INFO [Txt ''Point cloud 2 size: '', NatV (length B)],
      Log INFO [Txt ''Point cloud 1 range - min: '', VecV min1, Txt '', max: '', VecV max1],
      Log INFO [Txt ''Point cloud 2 range - min: '', VecV min2, Txt '', max: '', VecV max2],
      Log INFO [Txt ''Point cloud 1 has invalid points: '',
                BoolV (np_any isnan A \<or> np_any isinf A)],
      Log INFO [Txt ''Point cloud 2 has invalid points: '',
                BoolV (np_any isnan B \<or> np_any isinf B)]], Inr ())"
  using assms by (simp add: compare_def)

lemma compare_cases:
  assumes "\<not> (A = [] \<or> B = [])"
  obtains min1 max1 min2 max2 where
    "amin0 A = Inr min1" "amax0 A = Inr max1" "amin0 B = Inr min2" "amax0 B = Inr max2"
proof -
  from assms have "A \<noteq> []" "B \<noteq> []" by simp_all
  then obtain a b c d where "amin0 A = Inr a" "amax0 A = Inr b" "amin0 B = Inr c" "amax0 B = Inr d"
    using amin0_Cons [of A] amax0_Cons [of A] amin0_Cons [of B] amax0_Cons [of B] by auto
  then show thesis using that by simp
qed

lemma np_any_invalid: "(np_any isnan ps \<or> np_any isinf ps) = has_invalid ps"
proof -
  have "invalid_coord v = (isnan v \<or> isinf v)" for v
    by (cases v) (simp_all add: invalid_coord_def)
  then show ?thesis
    unfolding np_any_def has_invalid_def list_ex_iff by auto
qed

subsection \<open>Facts about minima and maxima\<close>

lemma fle_trans: "fle a b \<Longrightarrow> fle b c \<Longrightarrow> fle a c"
  by (cases a; cases b; cases c) simp_all

lemma fminimum_lower:
  "\<not> isnan a \<Longrightarrow> \<not> isnan b \<Longrightarrow>
   \<not> isnan (fminimum a b) \<and> fle (fminimum a b) a \<and> fle (fminimum a b) b"
  by (cases a; cases b) (simp_all add: fminimum_def)

lemma fmaximum_upper:
  "\<not> isnan a \<Longrightarrow> \<not> isnan b \<Longrightarrow>
   \<not> isnan (fmaximum a b) \<and> fle a (fmaximum a b) \<and> fle b (fmaximum a b)"
  by (cases a; cases b) (simp_all add: fmaximum_def)

lemma fold_min_lower:
  "\<not> isnan a \<Longrightarrow> \<forall>x \<in> set xs. \<not> isnan x \<Longrightarrow>
   \<not> isnan (foldl fminimum a xs) \<and> fle (foldl fminimum a xs) a \<and>
   (\<forall>x \<in> set xs. fle (foldl fminimum a xs) x)"
proof (induction xs arbitrary: a)
  case Nil
  then show ?case by (cases a) simp_all
next
  case (Cons x xs)
  let ?b = "fminimum a x"
  let ?r = "foldl fminimum ?b xs"
  have b: "\<not> isnan ?b" "fle ?b a" "fle ?b x"
    using Cons.prems fminimum_lower [of a x] by simp_all
  have r: "\<not> isnan ?r" "fle ?r ?b" "\<forall>y \<in> set xs. fle ?r y"
    using Cons.IH [of ?b] b(1) Cons.prems(2) by simp_all
  show ?case
    using r b fle_trans [of ?r ?b a] fle_trans [of ?r ?b x] by simp
qed

lemma fold_max_upper:
  "\<not> isnan a \<Longrightarrow> \<forall>x \<in> set xs. \<not> isnan x \<Longrightarrow>
   \<not> isnan (foldl fmaximum a xs) \<and> fle a (foldl fmaximum a xs) \<and>
   (\<forall>x \<in> set xs. fle x (foldl fmaximum a xs))"
proof (induction xs arbitrary: a)
  case Nil
  then show ?case by (cases a) simp_all
next
  case (Cons x xs)
  let ?b = "fmaximum a x"
  let ?r = "foldl fmaximum ?b xs"
  have b: "\<not> isnan ?b" "fle a ?b" "fle x ?b"
    using Cons.prems fmaximum_upper [of a x] by simp_all
  have r: "\<not> isnan ?r" "fle ?b ?r" "\<forall>y \<in> set xs. fle y ?r"
    using Cons.IH [of ?b] b(1) Cons.prems(2) by simp_all
  show ?case
    using r b fle_trans [of a ?b ?r] fle_trans [of x ?b ?r] by simp
qed

lemma no_nan_coords:
  "\<not> has_nan ps \<Longrightarrow> p \<in> set ps \<Longrightarrow> \<not> isnan (vx p) \<and> \<not> isnan (vy p) \<and> \<not> isnan (vz p)"
proof -
  have "isnan v = (v = NaN)" for v by (cases v) simp_all
  then show "\<not> has_nan ps \<Longrightarrow> p \<in> set ps \<Longrightarrow> ?thesis"
    by (auto simp add: has_nan_def coords_def)
qed

lemma amin0_lower:
  assumes "\<not> has_nan ps" "amin0 ps = Inr m" "p \<in> set ps"
  shows "vec_le m p"
proof (cases ps)
  case Nil
  with assms(3) show ?thesis by simp
next
  case (Cons q qs)
  have nn: "\<And>u. u \<in> set ps \<Longrightarrow> \<not> isnan (vx u) \<and> \<not> isnan (vy u) \<and> \<not> isnan (vz u)"
    using no_nan_coords [OF assms(1)] by blast
  have m: "m = Vec3 (foldl fminimum (vx q) (map vx qs)) (foldl fminimum (vy q) (map vy qs))
                    (foldl fminimum (vz q) (map vz qs))"
    using assms(2) Cons by (simp add: amin0_def)
  have x: "fle (foldl fminimum (vx q) (map vx qs)) (vx q) \<and>
           (\<forall>v \<in> set (map vx qs). fle (foldl fminimum (vx q) (map vx qs)) v)"
    using fold_min_lower [of "vx q" "map vx qs"] nn Cons by simp
  have y: "fle (foldl fminimum (vy q) (map vy qs)) (vy q) \<and>
           (\<forall>v \<in> set (map vy qs). fle (foldl fminimum (vy q) (map vy qs)) v)"
    using fold_min_lower [of "vy q" "map vy qs"] nn Cons by simp
  have z: "fle (foldl fminimum (vz q) (map vz qs)) (vz q) \<and>
           (\<forall>v \<in> set (map vz qs). fle (foldl fminimum (vz q) (map vz qs)) v)"
    using fold_min_lower [of "vz q" "map vz qs"] nn Cons by simp
  from assms(3) Cons have "p = q \<or> p \<in> set qs" by simp
  then show ?thesis
    using x y z m by (auto simp add: vec_le_def)
qed

lemma amax0_upper:
  assumes "\<not> has_nan ps" "amax0 ps = Inr m" "p \<in> set ps"
  shows "vec_le p m"
proof (cases ps)
  case Nil
  with assms(3) show ?thesis by simp
next
  case (Cons q qs)
  have nn: "\<And>u. u \<in> set ps \<Longrightarrow> \<not> isnan (vx u) \<and> \<not> isnan (vy u) \<and> \<not> isnan (vz u)"
    using no_nan_coords [OF assms(1)] by blast
  have m: "m = Vec3 (foldl fmaximum (vx q) (map vx qs)) (foldl fmaximum (vy q) (map vy qs))
                    (foldl fmaximum (vz q) (map vz qs))"
    using assms(2) Cons by (simp add: amax0_def)
  have x: "fle (vx q) (foldl fmaximum (vx q) (map vx qs)) \<and>
           (\<forall>v \<in> set (map vx qs). fle v (foldl fmaximum (vx q) (map vx qs)))"
    using fold_max_upper [of "vx q" "map vx qs"] nn Cons by simp
  have y: "fle (vy q) (foldl fmaximum (vy q) (map vy qs)) \<and>
           (\<forall>v \<in> set (map vy qs). fle v (foldl fmaximum (vy q) (map vy qs)))"
    using fold_max_upper [of "vy q" "map vy qs"] nn Cons by simp
  have z: "fle (vz q) (foldl fmaximum (vz q) (map vz qs)) \<and>
           (\<forall>v \<in> set (map vz qs). fle v (foldl fmaximum (vz q) (map vz qs)))"
    using fold_max_upper [of "vz q" "map vz qs"] nn Cons by simp
  from assms(3) Cons have "p = q \<or> p \<in> set qs" by simp
  then show ?thesis
    using x y z m by (auto simp add: vec_le_def)
qed

text \<open>A NaN entry makes the reduction of its column NaN.\<close>

lemma fold_min_from_nan: "foldl fminimum NaN xs = NaN"
  by (induction xs) (simp_all add: fminimum_def)

lemma fold_max_from_nan: "foldl fmaximum NaN xs = NaN"
  by (induction xs) (simp_all add: fmaximum_def)

lemma fminimum_nan: "fminimum NaN b = NaN" "fminimum a NaN = NaN"
  by (cases a; simp add: fminimum_def)+

lemma fmaximum_nan: "fmaximum NaN b = NaN" "fmaximum a NaN = NaN"
  by (cases a; simp add: fmaximum_def)+

lemma fold_min_nan: "a = NaN \<or> NaN \<in> set xs \<Longrightarrow> foldl fminimum a xs = NaN"
proof (induction xs arbitrary: a)
  case Nil
  then show ?case by simp
next
  case (Cons x xs)
  then consider "a = NaN" | "x = NaN" | "NaN \<in> set xs" by auto
  then show ?case
  proof cases
    case 1
    then show ?thesis by (simp add: fminimum_nan fold_min_from_nan)
  next
    case 2
    then show ?thesis by (simp add: fminimum_nan fold_min_from_nan)
  next
    case 3
    then show ?thesis using Cons.IH [of "fminimum a x"] by simp
  qed
qed

lemma fold_max_nan: "a = NaN \<or> NaN \<in> set xs \<Longrightarrow> foldl fmaximum a xs = NaN"
proof (induction xs arbitrary: a)
  case Nil
  then show ?case by simp
next
  case (Cons x xs)
  then consider "a = NaN" | "x = NaN" | "NaN \<in> set xs" by auto
  then show ?case
  proof cases
    case 1
    then show ?thesis by (simp add: fmaximum_nan fold_max_from_nan)
  next
    case 2
    then show ?thesis by (simp add: fmaximum_nan fold_max_from_nan)
  next
    case 3
    then show ?thesis using Cons.IH [of "fmaximum a x"] by simp
  qed
qed

lemma amin0_nan:
  assumes "amin0 ps = Inr m" "p \<in> set ps"
  shows "(vx p = NaN \<longrightarrow> vx m = NaN) \<and> (vy p = NaN \<longrightarrow> vy m = NaN) \<and>
         (vz p = NaN \<longrightarrow> vz m = NaN)"
proof (cases ps)
  case Nil
  with assms(2) show ?thesis by simp
next
  case (Cons q qs)
  have m: "m = Vec3 (foldl fminimum (vx q) (map vx qs)) (foldl fminimum (vy q) (map vy qs))
                    (foldl fminimum (vz q) (map vz qs))"
    using assms(1) Cons by (simp add: amin0_def)
  from assms(2) Cons have pq: "p = q \<or> p \<in> set qs" by simp
  have x: "vx p = NaN \<Longrightarrow> foldl fminimum (vx q) (map vx qs) = NaN"
    using pq by (intro fold_min_nan) force
  have y: "vy p = NaN \<Longrightarrow> foldl fminimum (vy q) (map vy qs) = NaN"
    using pq by (intro fold_min_nan) force
  have z: "vz p = NaN \<Longrightarrow> foldl fminimum (vz q) (map vz qs) = NaN"
    using pq by (intro fold_min_nan) force
  show ?thesis using x y z m by simp
qed

lemma amax0_nan:
  assumes "amax0 ps = Inr m" "p \<in> set ps"
  shows "(vx p = NaN \<longrightarrow> vx m = NaN) \<and> (vy p = NaN \<longrightarrow> vy m = NaN) \<and>
         (vz p = NaN \<longrightarrow> vz m = NaN)"
proof (cases ps)
  case Nil
  with assms(2) show ?thesis by simp
next
  case (Cons q qs)
  have m: "m = Vec3 (foldl fmaximum (vx q) (map vx qs)) (foldl fmaximum (vy q) (map vy qs))
                    (foldl fmaximum (vz q) (map vz qs))"
    using assms(1) Cons by (simp add: amax0_def)
  from assms(2) Cons have pq: "p = q \<or> p \<in> set qs" by simp
  have x: "vx p = NaN \<Longrightarrow> foldl fmaximum (vx q) (map vx qs) = NaN"
    using pq by (intro fold_max_nan) force
  have y: "vy p = NaN \<Longrightarrow> foldl fmaximum (vy q) (map vy qs) = NaN"
    using pq by (intro fold_max_nan) force
  have z: "vz p = NaN \<Longrightarrow> foldl fmaximum (vz q) (map vz qs) = NaN"
    using pq by (intro fold_max_nan) force
  show ?thesis using x y z m by simp
qed

lemma fle_nan: "\<not> fle NaN v" "\<not> fle v NaN"
  by (cases v; simp)+

lemma nan_extent:
  assumes "has_nan ps" "amin0 ps = Inr mn" "amax0 ps = Inr mx"
  shows "\<not> vec_le mn q \<and> \<not> vec_le q mx"
proof -
  from assms(1) obtain p where p: "p \<in> set ps" "vx p = NaN \<or> vy p = NaN \<or> vz p = NaN"
    by (auto simp add: has_nan_def coords_def)
  have "vx mn = NaN \<and> vx mx = NaN \<or> vy mn = NaN \<and> vy mx = NaN \<or> vz mn = NaN \<and> vz mx = NaN"
    using p amin0_nan [OF assms(2) p(1)] amax0_nan [OF assms(3) p(1)] by blast
  then show ?thesis
    by (auto simp add: vec_le_def fle_nan)
qed

subsection \<open>Facts about the run of \<^verbatim>\<open>main\<close>\<close>

lemma print_ply_info_no_visualize: "filter is_visualize (print_ply_info E file) = []"
  by (cases "from_file E file") (simp_all add: print_ply_info_def)

lemma compare_point_clouds_first_fails:
  "from_file E file1 = Inl e \<Longrightarrow>
   compare_point_clouds E file1 file2 = ([PyntFromFile file1], Inl e)"
  by (simp add: compare_point_clouds_def)

lemma compare_point_clouds_second_fails:
  "from_file E file1 = Inr pts \<Longrightarrow> from_file E file2 = Inl e \<Longrightarrow>
   compare_point_clouds E file1 file2 = ([PyntFromFile file1, PyntFromFile file2], Inl e)"
  by (simp add: compare_point_clouds_def)

section \<open>The height filter\<close>

text \<open>
  C1. For every cloud and every real threshold, the height filter returns a cloud whose
  points are exactly the input points whose z-coordinate is strictly greater than the
  threshold, in their original order. With points at z = -1, 0, 1 and threshold 0 the
  result is the one point at z = 1.
\<close>

theorem filter_positions:
  "(\<exists>c'. filter_by_height c (Fin r) = Inr c' \<and> points c' = filter (above r) (points c)) \<and>
   filter_by_height
     \<lparr>points = [Vec3 (Fin 2) (Fin 3) (Fin (- 1)), Vec3 (Fin 4) (Fin 5) (Fin 0),
                Vec3 (Fin 6) (Fin 7) (Fin 1)], colors = []\<rparr> (Fin 0)
   = Inr \<lparr>points = [Vec3 (Fin 6) (Fin 7) (Fin 1)], colors = []\<rparr>"
proof
  show "\<exists>c'. filter_by_height c (Fin r) = Inr c' \<and> points c' = filter (above r) (points c)"
    by (simp add: filter_by_height_eq fgt_Fin_above)
  show "filter_by_height
     \<lparr>points = [Vec3 (Fin 2) (Fin 3) (Fin (- 1)), Vec3 (Fin 4) (Fin 5) (Fin 0),
                Vec3 (Fin 6) (Fin 7) (Fin 1)], colors = []\<rparr> (Fin 0)
   = Inr \<lparr>points = [Vec3 (Fin 6) (Fin 7) (Fin 1)], colors = []\<rparr>"
    by (simp add: filter_by_height_eq has_colors_def)
qed

text \<open>
  C2. When the cloud has colours, the filter returns a cloud with as many colours as
  points, and its points paired with its colours are exactly the kept pairs of the
  input, in order: each surviving colour is the one that came with its point. When the
  cloud has no colours, the result has none.
\<close>

theorem filter_colors:
  "(has_colors c \<longrightarrow>
     (\<exists>c'. filter_by_height c t = Inr c' \<and>
        length (colors c') = length (points c') \<and>
        zip (points c') (colors c') =
          filter (\<lambda>pc. fgt (vz (fst pc)) t) (zip (points c) (colors c)))) \<and>
   (\<not> has_colors c \<longrightarrow>
     (\<exists>c'. filter_by_height c t = Inr c' \<and> colors c' = [] \<and> \<not> has_colors c'))"
  using zip_kept [where cs = "colors c" and ps = "points c" and P = "\<lambda>p. fgt (vz p) t"]
    length_kept [where cs = "colors c" and ps = "points c" and P = "\<lambda>p. fgt (vz p) t"]
  by (simp add: filter_by_height_eq has_colors_def)

text \<open>
  Three points with three colours, filtered down to one point: one colour is left, the
  one of the surviving point.
\<close>

theorem filter_colors_witness:
  "has_colors \<lparr>points = [Vec3 (Fin 0) (Fin 0) (Fin (- 1)), Vec3 (Fin 0) (Fin 0) (Fin 0),
                         Vec3 (Fin 0) (Fin 0) (Fin 1)],
               colors = [Vec3 (Fin 1) (Fin 0) (Fin 0), Vec3 (Fin 0) (Fin 1) (Fin 0),
                         Vec3 (Fin 0) (Fin 0) (Fin 1)]\<rparr> \<and>
   (\<exists>c'. filter_by_height
            \<lparr>points = [Vec3 (Fin 0) (Fin 0) (Fin (- 1)), Vec3 (Fin 0) (Fin 0) (Fin 0),
                       Vec3 (Fin 0) (Fin 0) (Fin 1)],
             colors = [Vec3 (Fin 1) (Fin 0) (Fin 0), Vec3 (Fin 0) (Fin 1) (Fin 0),
                       Vec3 (Fin 0) (Fin 0) (Fin 1)]\<rparr> (Fin 0) = Inr c' \<and>
          length (colors c') = length (points c') \<and>
          zip (points c') (colors c') =
            [(Vec3 (Fin 0) (Fin 0) (Fin 1), Vec3 (Fin 0) (Fin 0) (Fin 1))])"
  using filter_colors [of "\<lparr>points = [Vec3 (Fin 0) (Fin 0) (Fin (- 1)), Vec3 (Fin 0) (Fin 0) (Fin 0),
                         Vec3 (Fin 0) (Fin 0) (Fin 1)],
               colors = [Vec3 (Fin 1) (Fin 0) (Fin 0), Vec3 (Fin 0) (Fin 1) (Fin 0),
                         Vec3 (Fin 0) (Fin 0) (Fin 1)]\<rparr>" "Fin 0"]
  by (simp add: has_colors_def)

text \<open>
  C7. Filtering a filtered cloud again with the same threshold returns the same cloud.
\<close>

theorem filter_idempotent:
  "\<exists>c'. filter_by_height c t = Inr c' \<and> filter_by_height c' t = Inr c'"
proof (cases "has_colors c")
  case True
  then have len: "length (colors c) = length (points c)"
    by (simp add: has_colors_def)
  let ?P = "\<lambda>p. fgt (vz p) t"
  let ?fp = "filter ?P (points c)"
  let ?fc = "map snd (filter (\<lambda>pc. ?P (fst pc)) (zip (points c) (colors c)))"
  have l2: "length ?fc = length ?fp"
    using len length_kept [where cs = "colors c" and ps = "points c" and P = ?P] by simp
  have all: "\<forall>p \<in> set ?fp. ?P p" by simp
  have again: "map snd (filter (\<lambda>pc. ?P (fst pc)) (zip ?fp ?fc)) = ?fc"
    using kept_all [OF l2 all] .
  have empty: "?fp = [] \<Longrightarrow> ?fc = []"
    using l2 by simp
  show ?thesis
    using True again l2 empty
    by (auto simp add: filter_by_height_eq has_colors_def filter_keeps)
next
  case False
  then show ?thesis
    by (auto simp add: filter_by_height_eq has_colors_def filter_keeps)
qed

text \<open>
  C8. The filter applied to the empty cloud returns the empty cloud, for every threshold,
  and a threshold that no point exceeds gives the empty cloud; neither raises.
\<close>

theorem filter_empty:
  "filter_by_height PointCloud_new t = Inr PointCloud_new \<and>
   ((\<forall>p \<in> set (points c). \<not> fgt (vz p) t) \<longrightarrow> filter_by_height c t = Inr PointCloud_new)"
proof
  show "filter_by_height PointCloud_new t = Inr PointCloud_new"
    by (simp add: filter_by_height_eq has_colors_def PointCloud_new_def)
  show "(\<forall>p \<in> set (points c). \<not> fgt (vz p) t) \<longrightarrow> filter_by_height c t = Inr PointCloud_new"
  proof
    assume none: "\<forall>p \<in> set (points c). \<not> fgt (vz p) t"
    then have fp: "filter (\<lambda>p. fgt (vz p) t) (points c) = []"
      by simp
    have fc: "has_colors c \<Longrightarrow>
        filter (\<lambda>pc. fgt (vz (fst pc)) t) (zip (points c) (colors c)) = []"
      using none kept_none [where cs = "colors c" and ps = "points c" and P = "\<lambda>p. fgt (vz p) t"]
      by (simp add: has_colors_def)
    show "filter_by_height c t = Inr PointCloud_new"
      using fp fc by (simp add: filter_by_height_eq PointCloud_new_def)
  qed
qed

text \<open>Three coloured points at z = 0 and threshold 0: nothing is kept, nothing is raised.\<close>

theorem filter_empty_witness:
  "filter_by_height
     \<lparr>points = [Vec3 (Fin 1) (Fin 0) (Fin 0), Vec3 (Fin 2) (Fin 0) (Fin 0),
                Vec3 (Fin 3) (Fin 0) (Fin 0)],
      colors = [Vec3 (Fin 1) (Fin 0) (Fin 0), Vec3 (Fin 0) (Fin 1) (Fin 0),
                Vec3 (Fin 0) (Fin 0) (Fin 1)]\<rparr> (Fin 0) = Inr \<lparr>points = [], colors = []\<rparr>"
  using filter_empty [of "Fin 0" "\<lparr>points = [Vec3 (Fin 1) (Fin 0) (Fin 0), Vec3 (Fin 2) (Fin 0) (Fin 0),
                Vec3 (Fin 3) (Fin 0) (Fin 0)],
      colors = [Vec3 (Fin 1) (Fin 0) (Fin 0), Vec3 (Fin 0) (Fin 1) (Fin 0),
                Vec3 (Fin 0) (Fin 0) (Fin 1)]\<rparr>"]
  by (simp add: PointCloud_new_def)

section \<open>The comparator\<close>

text \<open>
  C3, as the code has it. The comparison returns when both clouds have a point. When
  one of them is empty it logs the two sizes (0 for the empty one) and then stops with
  the ValueError of the minimum over no rows: no extent and no invalid flag is logged.
\<close>

theorem compare_returns:
  "(A \<noteq> [] \<and> B \<noteq> [] \<longrightarrow> snd (compare A B) = Inr ()) \<and>
   (A = [] \<or> B = [] \<longrightarrow>
      compare A B = ([Log INFO [Txt ''Point cloud 1 size: '', NatV (length A)],
                      Log INFO [Txt ''Point cloud 2 size: '', NatV (length B)]], Inl ValueError))"
proof (intro conjI impI)
  assume "A \<noteq> [] \<and> B \<noteq> []"
  then have "\<not> (A = [] \<or> B = [])" by simp
  then obtain min1 max1 min2 max2 where
    m: "amin0 A = Inr min1" "amax0 A = Inr max1" "amin0 B = Inr min2" "amax0 B = Inr max2"
    by (rule compare_cases)
  show "snd (compare A B) = Inr ()"
    unfolding compare_nonempty [OF m] by simp
next
  assume "A = [] \<or> B = []"
  then show "compare A B = ([Log INFO [Txt ''Point cloud 1 size: '', NatV (length A)],
                      Log INFO [Txt ''Point cloud 2 size: '', NatV (length B)]], Inl ValueError)"
    by (rule compare_empty)
qed

theorem compare_returns_witness:
  "snd (compare [Vec3 (Fin 1) (Fin 2) (Fin 3)] [Vec3 (Fin 4) (Fin 5) (Fin 6)]) = Inr () \<and>
   compare [Vec3 (Fin 1) (Fin 2) (Fin 3)] [] =
     ([Log INFO [Txt ''Point cloud 1 size: '', NatV 1],
       Log INFO [Txt ''Point cloud 2 size: '', NatV 0]], Inl ValueError)"
  using compare_returns [of "[Vec3 (Fin 1) (Fin 2) (Fin 3)]" "[Vec3 (Fin 4) (Fin 5) (Fin 6)]"]
    compare_returns [of "[Vec3 (Fin 1) (Fin 2) (Fin 3)]" "[]"]
  by simp

text \<open>
  C3 as stated fails: with an empty first cloud the comparison does not complete; it
  raises after the sizes, and reports nothing in place of the extent.
\<close>

theorem compare_empty_counterexample:
  "compare [] [Vec3 (Fin 1) (Fin 2) (Fin 3)] =
     ([Log INFO [Txt ''Point cloud 1 size: '', NatV 0],
       Log INFO [Txt ''Point cloud 2 size: '', NatV 1]], Inl ValueError)"
  by (simp add: compare_def amin0_def amax0_def)

text \<open>
  C4, as the code has it. When both clouds have a point, the comparison reports one
  invalid flag for each, and the flag of a cloud is true exactly when some coordinate of
  some point of that cloud is NaN or infinite. When one of the two clouds is empty, no
  flag is reported for either.
\<close>

theorem compare_invalid:
  "(A \<noteq> [] \<and> B \<noteq> [] \<longrightarrow>
      reported ''Point cloud 1 has invalid points: '' (fst (compare A B))
        = [[BoolV (has_invalid A)]] \<and>
      reported ''Point cloud 2 has invalid points: '' (fst (compare A B))
        = [[BoolV (has_invalid B)]]) \<and>
   (A = [] \<or> B = [] \<longrightarrow>
      reported ''Point cloud 1 has invalid points: '' (fst (compare A B)) = [] \<and>
      reported ''Point cloud 2 has invalid points: '' (fst (compare A B)) = [])"
proof (cases "A = [] \<or> B = []")
  case True
  show ?thesis
    unfolding compare_empty [OF True] using True by (simp add: reported_def)
next
  case False
  then obtain min1 max1 min2 max2 where
    m: "amin0 A = Inr min1" "amax0 A = Inr max1" "amin0 B = Inr min2" "amax0 B = Inr max2"
    by (rule compare_cases)
  show ?thesis
    unfolding compare_nonempty [OF m] using False by (simp add: reported_def np_any_invalid)
qed

text \<open>
  One infinite coordinate among finite ones is flagged, an all-finite cloud is not; next
  to an empty cloud nothing is flagged.
\<close>

theorem compare_invalid_witness:
  "reported ''Point cloud 1 has invalid points: ''
     (fst (compare [Vec3 (Fin 1) (Fin 2) (Fin 3), Vec3 (Fin 1) PInf (Fin 3)]
                   [Vec3 (Fin 4) (Fin 5) (Fin 6)])) = [[BoolV True]] \<and>
   reported ''Point cloud 2 has invalid points: ''
     (fst (compare [Vec3 (Fin 1) (Fin 2) (Fin 3), Vec3 (Fin 1) PInf (Fin 3)]
                   [Vec3 (Fin 4) (Fin 5) (Fin 6)])) = [[BoolV False]] \<and>
   reported ''Point cloud 2 has invalid points: ''
     (fst (compare [] [Vec3 (Fin 4) NInf (Fin 6)])) = []"
  using compare_invalid [of "[Vec3 (Fin 1) (Fin 2) (Fin 3), Vec3 (Fin 1) PInf (Fin 3)]"
      "[Vec3 (Fin 4) (Fin 5) (Fin 6)]"]
    compare_invalid [of "[]" "[Vec3 (Fin 4) NInf (Fin 6)]"]
  by (simp add: has_invalid_def coords_def invalid_coord_def)

text \<open>
  C4 as stated fails next to an empty cloud: the first cloud has a NaN coordinate, and
  the comparison raises before it reports a flag.
\<close>

theorem compare_invalid_counterexample:
  "has_invalid [Vec3 NaN (Fin 0) (Fin 0)] \<and>
   reported ''Point cloud 1 has invalid points: ''
     (fst (compare [Vec3 NaN (Fin 0) (Fin 0)] [])) = [] \<and>
   snd (compare [Vec3 NaN (Fin 0) (Fin 0)] []) = Inl ValueError"
  by (simp add: has_invalid_def coords_def invalid_coord_def compare_def amin0_def amax0_def
      reported_def)

text \<open>
  C5. The comparison reports the number of points of the first cloud as the size of
  cloud 1 and the number of points of the second as the size of cloud 2, for every pair
  of clouds, empty ones included.
\<close>

theorem compare_sizes:
  "reported ''Point cloud 1 size: '' (fst (compare A B)) = [[NatV (length A)]] \<and>
   reported ''Point cloud 2 size: '' (fst (compare A B)) = [[NatV (length B)]]"
proof (cases "A = [] \<or> B = []")
  case True
  show ?thesis
    unfolding compare_empty [OF True] by (simp add: reported_def)
next
  case False
  then obtain min1 max1 min2 max2 where
    m: "amin0 A = Inr min1" "amax0 A = Inr max1" "amin0 B = Inr min2" "amax0 B = Inr max2"
    by (rule compare_cases)
  show ?thesis
    unfolding compare_nonempty [OF m] by (simp add: reported_def)
qed

text \<open>
  C6, as the code has it. When both clouds have a point the comparison reports one
  extent for each. The extent of a cloud with no NaN coordinate bounds every point of
  that cloud, componentwise (infinite coordinates included). A NaN coordinate makes the
  minimum and the maximum of its column NaN, and such an extent bounds no point at all.
\<close>

theorem compare_extent:
  "A \<noteq> [] \<and> B \<noteq> [] \<longrightarrow>
   (\<exists>min1 max1 min2 max2.
      reported ''Point cloud 1 range - min: '' (fst (compare A B))
        = [[VecV min1, Txt '', max: '', VecV max1]] \<and>
      reported ''Point cloud 2 range - min: '' (fst (compare A B))
        = [[VecV min2, Txt '', max: '', VecV max2]] \<and>
      (\<not> has_nan A \<longrightarrow> (\<forall>p \<in> set A. vec_le min1 p \<and> vec_le p max1)) \<and>
      (\<not> has_nan B \<longrightarrow> (\<forall>p \<in> set B. vec_le min2 p \<and> vec_le p max2)) \<and>
      (\<forall>p \<in> set A. (vx p = NaN \<longrightarrow> vx min1 = NaN \<and> vx max1 = NaN) \<and>
                     (vy p = NaN \<longrightarrow> vy min1 = NaN \<and> vy max1 = NaN) \<and>
                     (vz p = NaN \<longrightarrow> vz min1 = NaN \<and> vz max1 = NaN)) \<and>
      (\<forall>p \<in> set B. (vx p = NaN \<longrightarrow> vx min2 = NaN \<and> vx max2 = NaN) \<and>
                     (vy p = NaN \<longrightarrow> vy min2 = NaN \<and> vy max2 = NaN) \<and>
                     (vz p = NaN \<longrightarrow> vz min2 = NaN \<and> vz max2 = NaN)) \<and>
      (has_nan A \<longrightarrow> (\<forall>q. \<not> vec_le min1 q \<and> \<not> vec_le q max1)) \<and>
      (has_nan B \<longrightarrow> (\<forall>q. \<not> vec_le min2 q \<and> \<not> vec_le q max2)))"
proof
  assume "A \<noteq> [] \<and> B \<noteq> []"
  then have "\<not> (A = [] \<or> B = [])" by simp
  then obtain min1 max1 min2 max2 where
    m: "amin0 A = Inr min1" "amax0 A = Inr max1" "amin0 B = Inr min2" "amax0 B = Inr max2"
    by (rule compare_cases)
  have r1: "reported ''Point cloud 1 range - min: '' (fst (compare A B))
        = [[VecV min1, Txt '', max: '', VecV max1]]"
    unfolding compare_nonempty [OF m] by (simp add: reported_def)
  have r2: "reported ''Point cloud 2 range - min: '' (fst (compare A B))
        = [[VecV min2, Txt '', max: '', VecV max2]]"
    unfolding compare_nonempty [OF m] by (simp add: reported_def)
  have b1: "\<not> has_nan A \<longrightarrow> (\<forall>p \<in> set A. vec_le min1 p \<and> vec_le p max1)"
    using amin0_lower [OF _ m(1)] amax0_upper [OF _ m(2)] by blast
  have b2: "\<not> has_nan B \<longrightarrow> (\<forall>p \<in> set B. vec_le min2 p \<and> vec_le p max2)"
    using amin0_lower [OF _ m(3)] amax0_upper [OF _ m(4)] by blast
  have n1: "\<forall>p \<in> set A. (vx p = NaN \<longrightarrow> vx min1 = NaN \<and> vx max1 = NaN) \<and>
                     (vy p = NaN \<longrightarrow> vy min1 = NaN \<and> vy max1 = NaN) \<and>
                     (vz p = NaN \<longrightarrow> vz min1 = NaN \<and> vz max1 = NaN)"
    using amin0_nan [OF m(1)] amax0_nan [OF m(2)] by blast
  have n2: "\<forall>p \<in> set B. (vx p = NaN \<longrightarrow> vx min2 = NaN \<and> vx max2 = NaN) \<and>
                     (vy p = NaN \<longrightarrow> vy min2 = NaN \<and> vy max2 = NaN) \<and>
                     (vz p = NaN \<longrightarrow> vz min2 = NaN \<and> vz max2 = NaN)"
    using amin0_nan [OF m(3)] amax0_nan [OF m(4)] by blast
  have u1: "has_nan A \<longrightarrow> (\<forall>q. \<not> vec_le min1 q \<and> \<not> vec_le q max1)"
    using nan_extent [OF _ m(1) m(2)] by blast
  have u2: "has_nan B \<longrightarrow> (\<forall>q. \<not> vec_le min2 q \<and> \<not> vec_le q max2)"
    using nan_extent [OF _ m(3) m(4)] by blast
  from r1 r2 b1 b2 n1 n2 u1 u2 show "\<exists>min1 max1 min2 max2.
      reported ''Point cloud 1 range - min: '' (fst (compare A B))
        = [[VecV min1, Txt '', max: '', VecV max1]] \<and>
      reported ''Point cloud 2 range - min: '' (fst (compare A B))
        = [[VecV min2, Txt '', max: '', VecV max2]] \<and>
      (\<not> has_nan A \<longrightarrow> (\<forall>p \<in> set A. vec_le min1 p \<and> vec_le p max1)) \<and>
      (\<not> has_nan B \<longrightarrow> (\<forall>p \<in> set B. vec_le min2 p \<and> vec_le p max2)) \<and>
      (\<forall>p \<in> set A. (vx p = NaN \<longrightarrow> vx min1 = NaN \<and> vx max1 = NaN) \<and>
                     (vy p = NaN \<longrightarrow> vy min1 = NaN \<and> vy max1 = NaN) \<and>
                     (vz p = NaN \<longrightarrow> vz min1 = NaN \<and> vz max1 = NaN)) \<and>
      (\<forall>p \<in> set B. (vx p = NaN \<longrightarrow> vx min2 = NaN \<and> vx max2 = NaN) \<and>
                     (vy p = NaN \<longrightarrow> vy min2 = NaN \<and> vy max2 = NaN) \<and>
                     (vz p = NaN \<longrightarrow> vz min2 = NaN \<and> vz max2 = NaN)) \<and>
      (has_nan A \<longrightarrow> (\<forall>q. \<not> vec_le min1 q \<and> \<not> vec_le q max1)) \<and>
      (has_nan B \<longrightarrow> (\<forall>q. \<not> vec_le min2 q \<and> \<not> vec_le q max2))"
    by (intro exI conjI)
qed

text \<open>Two points, one coordinate infinite: the reported extent, which bounds both.\<close>

theorem compare_extent_witness:
  "reported ''Point cloud 1 range - min: ''
     (fst (compare [Vec3 (Fin 1) (Fin 5) (Fin (- 2)), Vec3 (Fin 3) (Fin 4) PInf]
                   [Vec3 (Fin 0) (Fin 0) (Fin 0)]))
     = [[VecV (Vec3 (Fin 1) (Fin 4) (Fin (- 2))), Txt '', max: '', VecV (Vec3 (Fin 3) (Fin 5) PInf)]] \<and>
   vec_le (Vec3 (Fin 1) (Fin 4) (Fin (- 2))) (Vec3 (Fin 3) (Fin 4) PInf) \<and>
   vec_le (Vec3 (Fin 3) (Fin 4) PInf) (Vec3 (Fin 3) (Fin 5) PInf)"
  using compare_extent [of "[Vec3 (Fin 1) (Fin 5) (Fin (- 2)), Vec3 (Fin 3) (Fin 4) PInf]"
      "[Vec3 (Fin 0) (Fin 0) (Fin 0)]"]
  by (simp add: compare_def amin0_def amax0_def fminimum_def fmaximum_def reported_def vec_le_def)

text \<open>
  C6 as stated fails on a cloud with a NaN coordinate: the minimum and the maximum of
  that column are NaN, and NaN is not below or above anything, also not the other
  points of the cloud.
\<close>

theorem compare_extent_counterexample:
  "reported ''Point cloud 1 range - min: ''
     (fst (compare [Vec3 NaN (Fin 0) (Fin 0), Vec3 (Fin 1) (Fin 0) (Fin 0)]
                   [Vec3 (Fin 0) (Fin 0) (Fin 0)]))
     = [[VecV (Vec3 NaN (Fin 0) (Fin 0)), Txt '', max: '', VecV (Vec3 NaN (Fin 0) (Fin 0))]] \<and>
   \<not> vec_le (Vec3 NaN (Fin 0) (Fin 0)) (Vec3 (Fin 1) (Fin 0) (Fin 0)) \<and>
   \<not> vec_le (Vec3 (Fin 1) (Fin 0) (Fin 0)) (Vec3 NaN (Fin 0) (Fin 0))"
  by (simp add: compare_def amin0_def amax0_def fminimum_def fmaximum_def reported_def vec_le_def)

section \<open>The run of \<^verbatim>\<open>main\<close>\<close>

text \<open>
  C9, as the code has it. When one of the two paths does not exist, \<open>main\<close> calls no
  file reader and nothing after the check; it logs the one error record "One or both
  files do not exist.", which names no path, and returns. The second path is asked
  about only when the first exists.
\<close>

theorem main_missing_path:
  "\<not> path_exists E file1 \<or> \<not> path_exists E file2 \<longrightarrow>
   main E file1 file2 =
     (PathExists file1 # (if path_exists E file1 then [PathExists file2] else []) @
      [Log ERROR [Txt ''One or both files do not exist.'']], Inr ()) \<and>
   loader_calls (fst (main E file1 file2)) = [] \<and>
   paths_in_errors (fst (main E file1 file2)) = [] \<and>
   paths_checked (fst (main E file1 file2)) = (if path_exists E file1 then [file1, file2] else [file1])"
  by (simp add: main_def Let_def loader_calls_def paths_in_errors_def paths_checked_def)

theorem main_missing_path_witness:
  "loader_calls (fst (main env_no_files ''a.ply'' ''b.ply'')) = [] \<and>
   main env_no_files ''a.ply'' ''b.ply'' =
     ([PathExists ''a.ply'', Log ERROR [Txt ''One or both files do not exist.'']], Inr ())"
  using main_missing_path [of env_no_files "''a.ply''" "''b.ply''"]
  by (simp add: env_no_files_def loader_calls_def)

text \<open>
  C9 as stated fails when both paths are missing: only the first is checked, and the
  error record names neither.
\<close>

theorem main_missing_path_counterexample:
  "\<not> path_exists env_no_files ''a.ply'' \<and> \<not> path_exists env_no_files ''b.ply'' \<and>
   paths_checked (fst (main env_no_files ''a.ply'' ''b.ply'')) = [''a.ply''] \<and>
   paths_in_errors (fst (main env_no_files ''a.ply'' ''b.ply'')) = []"
  by (simp add: env_no_files_def main_def paths_checked_def paths_in_errors_def)

text \<open>
  C10 does not hold at the comparator's reads. When both files exist and reading one of
  them raises, \<open>print_ply_info\<close> logs the failure, but \<open>compare_point_clouds\<close> reads
  the file again outside any \<^verbatim>\<open>try\<close>: the exception leaves \<open>main\<close>, and neither
  visualization is started.
\<close>

theorem main_loader_failure:
  "path_exists E file1 \<and> path_exists E file2 \<and>
   (from_file E file1 = Inl e \<or> (\<exists>pts. from_file E file1 = Inr pts) \<and> from_file E file2 = Inl e) \<longrightarrow>
   snd (main E file1 file2) = Inl e \<and>
   filter is_visualize (fst (main E file1 file2)) = []"
proof
  assume a: "path_exists E file1 \<and> path_exists E file2 \<and>
   (from_file E file1 = Inl e \<or> (\<exists>pts. from_file E file1 = Inr pts) \<and> from_file E file2 = Inl e)"
  then have c: "snd (compare_point_clouds E file1 file2) = Inl e \<and>
                filter is_visualize (fst (compare_point_clouds E file1 file2)) = []"
    using compare_point_clouds_first_fails [of E file1 e file2]
      compare_point_clouds_second_fails [of E file1 _ file2 e]
    by auto
  show "snd (main E file1 file2) = Inl e \<and> filter is_visualize (fst (main E file1 file2)) = []"
    using a c by (simp add: main_def Let_def print_ply_info_no_visualize)
qed

text \<open>The run on an unreadable first file, in full.\<close>

theorem main_loader_failure_witness:
  "main env_bad_file ''bad.ply'' ''good.ply'' =
     ([PathExists ''bad.ply'', PathExists ''good.ply'',
       Log INFO [Txt ''Printing PLY file information...''],
       Log INFO [Txt ''Reading file: '', PathV ''bad.ply''], PyntFromFile ''bad.ply'',
       Log ERROR [Txt ''Error reading '', PathV ''bad.ply'', Txt '': '',
                  ErrV (ExtError ''not a PLY file'')],
       Log INFO [Txt ''Reading file: '', PathV ''good.ply''], PyntFromFile ''good.ply'',
       Log INFO [Txt ''PLY file header information:''],
       Print (Head [Vec3 (Fin 0) (Fin 0) (Fin 1)]),
       Log INFO [Txt ''Columns in the point cloud:''], Print Columns,
       Log INFO [Txt ''All point cloud data:''],
       Print (Table [Vec3 (Fin 0) (Fin 0) (Fin 1)]),
       Log INFO [Txt ''Vertex coordinates (x, y, z):''],
       Print (Vertices [Vec3 (Fin 0) (Fin 0) (Fin 1)]),
       Log INFO [Txt ''Point cloud statistics:''],
       Print (Describe [Vec3 (Fin 0) (Fin 0) (Fin 1)]),
       Log INFO [Txt ''Comparing point clouds...''], PyntFromFile ''bad.ply''],
      Inl (ExtError ''not a PLY file''))"
  using main_loader_failure [of env_bad_file "''bad.ply''" "''good.ply''" "ExtError ''not a PLY file''"]
  by (simp add: env_bad_file_def main_def print_ply_info_def compare_point_clouds_def)

end
